theory Spec2Isabelle
  imports Main "HOL-Library.AList"
begin

section \<open>Values, clauses and field masks\<close>

text \<open>
  Literal values that travel through keyword arguments and database rows. Python's
  \<^verbatim>\<open>None\<close> is \<open>NoneV\<close>.
\<close>

datatype val = NoneV | IntV int | StrV string | BoolV bool

text \<open>
  Keyword arguments (\<^verbatim>\<open>**kwargs\<close>) are a Python dict: keys in insertion order, each
  with its value.
\<close>

type_synonym kwargs = "(string \<times> val) list"

text \<open>
  A compiled filter clause. The clause compiler is an external collaborator; a clause is
  kept as the keyword (field path with optional operator suffix) and the literal it was
  built from.
\<close>

datatype clause = Clause string val

text \<open>
  A field mask (\<^verbatim>\<open>_columns\<close>, \<^verbatim>\<open>_exclude_columns\<close>) is a dict from names to
  \<^verbatim>\<open>...\<close>, a set of names or a nested dict.
\<close>

datatype mask = Ellipsis | Names "string list" | Nested "(string \<times> mask) list"

type_synonym dict = "(string \<times> mask) list"

text \<open>The argument of \<^verbatim>\<open>fields\<close> and \<^verbatim>\<open>exclude_fields\<close>: \<^verbatim>\<open>Union[List, str, Set, Dict]\<close>.\<close>

datatype columns_arg = ColStr string | ColList "string list" | ColSet "string list" | ColDict dict

text \<open>The argument of the relation and ordering builders: \<^verbatim>\<open>Union[List, str]\<close>.\<close>

datatype names_arg = OneName string | NameList "string list"

text \<open>
  A model instance as the query set sees it: the field values returned by \<^verbatim>\<open>dict()\<close>
  and the save status set by \<^verbatim>\<open>set_save_status\<close>. The primary key is the field named
  by \<^verbatim>\<open>Meta.pkname\<close>.
\<close>

record model_instance =
  inst_fields :: kwargs
  saved :: bool

text \<open>A database row: output column alias and value.\<close>

type_synonym row = "(string \<times> val) list"

text \<open>The exceptions raised in \<^verbatim>\<open>queryset.py\<close>, and the one passed on from the model constructor.\<close>

datatype error = NoMatch | MultipleMatches | QueryDefinitionError | ModelPersistenceError
  | ModelError | KeyError string | IndexError | InstanceError

section \<open>The model class seen from the query set\<close>

text \<open>
  The model class and its \<^verbatim>\<open>Meta\<close> are declared outside \<^verbatim>\<open>queryset.py\<close>. The query
  set only reads the attributes and calls the class methods below, which are therefore
  fields of the record: the data of the schema, and the helper functions whose bodies
  live in other modules.
\<close>

record model =
  model_name :: string
  pkname :: string
  requires_ref_update :: bool
  extract_db_own_fields :: "string list"
  extract_related_names :: "string list"
  get_column_alias :: "string \<Rightarrow> string"
  translate_columns_to_aliases :: "kwargs \<Rightarrow> kwargs"
  substitute_models_with_pks :: "kwargs \<Rightarrow> kwargs"
  prepare_model_to_save :: "kwargs \<Rightarrow> kwargs"
  table_columns :: "string list"
  related_path :: "string \<Rightarrow> string option"
  update_dict_from_list :: "dict \<Rightarrow> string list \<Rightarrow> dict"
  update_dict :: "dict \<Rightarrow> dict \<Rightarrow> dict"
  from_row :: "string list \<Rightarrow> dict \<Rightarrow> dict \<Rightarrow> row \<Rightarrow> model_instance option"
  merge_instances_list :: "model_instance option list \<Rightarrow> model_instance option list"
  new_instance :: "kwargs \<Rightarrow> error + model_instance"
  is_pk_type :: "val \<Rightarrow> bool"
  server_default_fields :: "string list"

section \<open>The store of mutable containers\<close>

text \<open>
  Python lists and dicts are objects reached through references, and the constructor of
  \<^verbatim>\<open>QuerySet\<close> keeps the references it is given. The store maps a reference to the
  content of the object; \<open>next_ref\<close> is the first reference not yet handed out. A
  descriptor holds references, so two descriptors share a container exactly when they
  hold the same reference.
\<close>

record store =
  clause_lists :: "nat \<Rightarrow> clause list"
  str_lists :: "nat \<Rightarrow> string list"
  dicts :: "nat \<Rightarrow> dict"
  next_ref :: nat

definition empty_store :: store where
  "empty_store = \<lparr>clause_lists = (\<lambda>_. []), str_lists = (\<lambda>_. []), dicts = (\<lambda>_. []), next_ref = 0\<rparr>"

definition new_clause_list :: "clause list \<Rightarrow> store \<Rightarrow> nat \<times> store" where
  "new_clause_list cs s =
     (next_ref s, s\<lparr>clause_lists := (clause_lists s)(next_ref s := cs), next_ref := Suc (next_ref s)\<rparr>)"

definition new_str_list :: "string list \<Rightarrow> store \<Rightarrow> nat \<times> store" where
  "new_str_list xs s =
     (next_ref s, s\<lparr>str_lists := (str_lists s)(next_ref s := xs), next_ref := Suc (next_ref s)\<rparr>)"

definition new_dict :: "dict \<Rightarrow> store \<Rightarrow> nat \<times> store" where
  "new_dict d s =
     (next_ref s, s\<lparr>dicts := (dicts s)(next_ref s := d), next_ref := Suc (next_ref s)\<rparr>)"

section \<open>The query descriptor\<close>

text \<open>
  The attributes of a \<^verbatim>\<open>QuerySet\<close> object. \<open>sel_related\<close>, \<open>pre_related\<close>, \<open>columns\<close>
  and \<open>exclude_columns\<close> are the attributes \<^verbatim>\<open>_select_related\<close>, \<^verbatim>\<open>_prefetch_related\<close>,
  \<^verbatim>\<open>_columns\<close> and \<^verbatim>\<open>_exclude_columns\<close>. Containers are references into the store.
  No method of the class assigns an attribute after \<^verbatim>\<open>__init__\<close>, so a descriptor is a
  value. The descriptors handed out by \<^verbatim>\<open>__get__\<close> on a model class and by the builders
  always carry a model class; the unbound \<^verbatim>\<open>QuerySet()\<close>, on which the property
  \<^verbatim>\<open>model\<close> raises \<^verbatim>\<open>ValueError\<close>, is not a value of this type.
\<close>

record queryset =
  model_cls :: model
  filter_clauses :: nat
  exclude_clauses :: nat
  sel_related :: nat
  pre_related :: nat
  limit_count :: "int option"
  query_offset :: "int option"
  columns :: nat
  exclude_columns :: nat
  order_bys :: nat
  limit_sql_raw :: bool

text \<open>
  \<^verbatim>\<open>__init__\<close>. An argument left out is \<open>None\<close>. The four lists tested with
  \<^verbatim>\<open>is None\<close> are kept by reference whenever they are given; the masks and the order
  list are written \<^verbatim>\<open>x or {}\<close> and \<^verbatim>\<open>x or []\<close>, so an empty container that is passed
  in is replaced by a new empty one.
\<close>

definition QuerySet_init ::
  "model \<Rightarrow> nat option \<Rightarrow> nat option \<Rightarrow> nat option \<Rightarrow> int option \<Rightarrow> int option \<Rightarrow>
   nat option \<Rightarrow> nat option \<Rightarrow> nat option \<Rightarrow> nat option \<Rightarrow> bool \<Rightarrow> store \<Rightarrow> store \<times> queryset" where
  "QuerySet_init m fc ec sr lim off cols excl obs pr raw s0 =
     (let (fc', s1) = (case fc of None \<Rightarrow> new_clause_list [] s0 | Some r \<Rightarrow> (r, s0));
          (ec', s2) = (case ec of None \<Rightarrow> new_clause_list [] s1 | Some r \<Rightarrow> (r, s1));
          (sr', s3) = (case sr of None \<Rightarrow> new_str_list [] s2 | Some r \<Rightarrow> (r, s2));
          (pr', s4) = (case pr of None \<Rightarrow> new_str_list [] s3 | Some r \<Rightarrow> (r, s3));
          (cols', s5) = (case cols of None \<Rightarrow> new_dict [] s4
                         | Some r \<Rightarrow> if dicts s4 r \<noteq> [] then (r, s4) else new_dict [] s4);
          (excl', s6) = (case excl of None \<Rightarrow> new_dict [] s5
                         | Some r \<Rightarrow> if dicts s5 r \<noteq> [] then (r, s5) else new_dict [] s5);
          (obs', s7) = (case obs of None \<Rightarrow> new_str_list [] s6
                         | Some r \<Rightarrow> if str_lists s6 r \<noteq> [] then (r, s6) else new_str_list [] s6)
      in (s7, \<lparr>model_cls = m, filter_clauses = fc', exclude_clauses = ec', sel_related = sr',
               pre_related = pr', limit_count = lim, query_offset = off, columns = cols',
               exclude_columns = excl', order_bys = obs', limit_sql_raw = raw\<rparr>))"

text \<open>
  \<^verbatim>\<open>__get__\<close> on a model class: \<^verbatim>\<open>ModelError\<close> while the forward references of
  the model are not updated, \<^verbatim>\<open>self.__class__(model_cls=owner)\<close> otherwise.
\<close>

definition objects :: "model \<Rightarrow> store \<Rightarrow> error + store \<times> queryset" where
  "objects owner s =
     (if requires_ref_update owner then Inl ModelError
      else Inr (QuerySet_init owner None None None None None None None None None False s))"

section \<open>The builders\<close>

text \<open>
  Modelled from the spec: \<^verbatim>\<open>QueryClause.prepare_filter\<close> (module
  \<^verbatim>\<open>ormar.queryset.clause\<close>) is missing from the sources. The spec makes every builder a
  pure function that folds the additional constraint into the ordered clause list, and
  lets a filter extend the select-related paths when a field path crosses a relation.
  The function is given the descriptor's filter clauses and select-related paths (the
  only containers \<^verbatim>\<open>filter\<close> hands to it) and returns new lists: the clauses given,
  followed by one clause per keyword argument, and the paths given, followed by each
  relation path crossed by a keyword and not yet present.
\<close>

definition prepare_filter ::
  "model \<Rightarrow> string list \<Rightarrow> clause list \<Rightarrow> kwargs \<Rightarrow> clause list \<times> string list" where
  "prepare_filter m select_related_paths clauses kw =
     (clauses @ map (\<lambda>(k, v). Clause k v) kw,
      foldl (\<lambda>paths (k, v). case related_path m k of
                               None \<Rightarrow> paths
                             | Some p \<Rightarrow> if p \<in> set paths then paths else paths @ [p])
            select_related_paths kw)"

text \<open>
  \<^verbatim>\<open>filter\<close>. The two lists returned by \<^verbatim>\<open>prepare_filter\<close> are new objects. With
  \<^verbatim>\<open>_exclude\<close> the returned clause list becomes the exclude list of the child and the
  parent's filter list is handed on; otherwise it becomes the filter list and the
  parent's exclude list is handed on.
\<close>

definition filter_qs :: "bool \<Rightarrow> kwargs \<Rightarrow> queryset \<Rightarrow> store \<Rightarrow> store \<times> queryset" where
  "filter_qs exclude_flag kw self s =
     (let (cs, paths) = prepare_filter (model_cls self) (str_lists s (sel_related self))
                          (clause_lists s (filter_clauses self)) kw;
          (cs_ref, s1) = new_clause_list cs s;
          (paths_ref, s2) = new_str_list paths s1;
          (exclude_ref, filter_ref) =
             (if exclude_flag then (cs_ref, filter_clauses self)
              else (exclude_clauses self, cs_ref))
      in QuerySet_init (model_cls self) (Some filter_ref) (Some exclude_ref) (Some paths_ref)
           (limit_count self) (query_offset self) (Some (columns self))
           (Some (exclude_columns self)) (Some (order_bys self)) (Some (pre_related self))
           (limit_sql_raw self) s2)"

definition exclude :: "kwargs \<Rightarrow> queryset \<Rightarrow> store \<Rightarrow> store \<times> queryset" where
  "exclude kw self s = filter_qs True kw self s"

text \<open>\<^verbatim>\<open>if not isinstance(related, list): related = [related]\<close>\<close>

fun as_list :: "names_arg \<Rightarrow> string list" where
  "as_list (OneName x) = [x]"
| "as_list (NameList xs) = xs"

text \<open>
  \<^verbatim>\<open>select_related\<close>: \<^verbatim>\<open>list(set(list(self._select_related) + related))\<close> is a new
  list holding each path once. Python leaves the iteration order of a set open; the
  model keeps one representative order.
\<close>

definition select_related :: "names_arg \<Rightarrow> queryset \<Rightarrow> store \<Rightarrow> store \<times> queryset" where
  "select_related related self s =
     (let (related_ref, s1) = new_str_list (remdups (str_lists s (sel_related self) @ as_list related)) s
      in QuerySet_init (model_cls self) (Some (filter_clauses self)) (Some (exclude_clauses self))
           (Some related_ref) (limit_count self) (query_offset self) (Some (columns self))
           (Some (exclude_columns self)) (Some (order_bys self)) (Some (pre_related self))
           (limit_sql_raw self) s1)"

definition prefetch_related :: "names_arg \<Rightarrow> queryset \<Rightarrow> store \<Rightarrow> store \<times> queryset" where
  "prefetch_related related self s =
     (let (related_ref, s1) = new_str_list (remdups (str_lists s (pre_related self) @ as_list related)) s
      in QuerySet_init (model_cls self) (Some (filter_clauses self)) (Some (exclude_clauses self))
           (Some (sel_related self)) (limit_count self) (query_offset self) (Some (columns self))
           (Some (exclude_columns self)) (Some (order_bys self)) (Some related_ref)
           (limit_sql_raw self) s1)"

text \<open>
  Modelled from the spec: \<^verbatim>\<open>update_dict_from_list\<close> and \<^verbatim>\<open>update\<close> (module
  \<^verbatim>\<open>ormar.queryset.utils\<close>) are missing from the sources. The spec makes \<^verbatim>\<open>fields\<close> and
  \<^verbatim>\<open>exclude_fields\<close> pure: the helpers compute the accumulated mask from the current
  mask and the argument and leave the current mask alone. Which mask they compute is
  left to the fields \<open>update_dict_from_list\<close> and \<open>update_dict\<close> of the model record; the
  result is a new dict.
\<close>

definition merged_mask :: "model \<Rightarrow> dict \<Rightarrow> columns_arg \<Rightarrow> dict" where
  "merged_mask m current cols =
     (case cols of
        ColStr c \<Rightarrow> update_dict_from_list m current [c]
      | ColList cs \<Rightarrow> update_dict_from_list m current cs
      | ColSet cs \<Rightarrow> update_dict_from_list m current cs
      | ColDict d \<Rightarrow> update_dict m current d)"

definition fields_qs :: "columns_arg \<Rightarrow> queryset \<Rightarrow> store \<Rightarrow> store \<times> queryset" where
  "fields_qs cols self s =
     (let (current_included, s1) = new_dict (merged_mask (model_cls self) (dicts s (columns self)) cols) s
      in QuerySet_init (model_cls self) (Some (filter_clauses self)) (Some (exclude_clauses self))
           (Some (sel_related self)) (limit_count self) (query_offset self) (Some current_included)
           (Some (exclude_columns self)) (Some (order_bys self)) (Some (pre_related self))
           (limit_sql_raw self) s1)"

definition exclude_fields :: "columns_arg \<Rightarrow> queryset \<Rightarrow> store \<Rightarrow> store \<times> queryset" where
  "exclude_fields cols self s =
     (let (current_excluded, s1) =
             new_dict (merged_mask (model_cls self) (dicts s (exclude_columns self)) cols) s
      in QuerySet_init (model_cls self) (Some (filter_clauses self)) (Some (exclude_clauses self))
           (Some (sel_related self)) (limit_count self) (query_offset self) (Some (columns self))
           (Some current_excluded) (Some (order_bys self)) (Some (pre_related self))
           (limit_sql_raw self) s1)"

text \<open>
  \<^verbatim>\<open>order_by\<close>:
  \<^verbatim>\<open>order_bys = self.order_bys + [x for x in columns if x not in self.order_bys]\<close>,
  a new list.
\<close>

definition order_by :: "names_arg \<Rightarrow> queryset \<Rightarrow> store \<Rightarrow> store \<times> queryset" where
  "order_by cols self s =
     (let current = str_lists s (order_bys self);
          (order_ref, s1) = new_str_list (current @ [x \<leftarrow> as_list cols. x \<notin> set current]) s
      in QuerySet_init (model_cls self) (Some (filter_clauses self)) (Some (exclude_clauses self))
           (Some (sel_related self)) (limit_count self) (query_offset self) (Some (columns self))
           (Some (exclude_columns self)) (Some order_ref) (Some (pre_related self))
           (limit_sql_raw self) s1)"

text \<open>
  \<^verbatim>\<open>limit\<close> and \<^verbatim>\<open>offset\<close> hand every container of the parent to the constructor of
  the child.
\<close>

definition limit :: "int \<Rightarrow> bool option \<Rightarrow> queryset \<Rightarrow> store \<Rightarrow> store \<times> queryset" where
  "limit n limit_raw_sql self s =
     (let raw = (case limit_raw_sql of None \<Rightarrow> limit_sql_raw self | Some b \<Rightarrow> b)
      in QuerySet_init (model_cls self) (Some (filter_clauses self)) (Some (exclude_clauses self))
           (Some (sel_related self)) (Some n) (query_offset self) (Some (columns self))
           (Some (exclude_columns self)) (Some (order_bys self)) (Some (pre_related self)) raw s)"

definition offset :: "int \<Rightarrow> bool option \<Rightarrow> queryset \<Rightarrow> store \<Rightarrow> store \<times> queryset" where
  "offset n limit_raw_sql self s =
     (let raw = (case limit_raw_sql of None \<Rightarrow> limit_sql_raw self | Some b \<Rightarrow> b)
      in QuerySet_init (model_cls self) (Some (filter_clauses self)) (Some (exclude_clauses self))
           (Some (sel_related self)) (limit_count self) (Some n) (Some (columns self))
           (Some (exclude_columns self)) (Some (order_bys self)) (Some (pre_related self)) raw s)"

text \<open>
  A builder call as data, so that chains of calls can be quantified over. A chain applies
  each call to the descriptor returned by the one before.
\<close>

datatype call =
    Filter kwargs
  | Exclude kwargs
  | SelectRelated names_arg
  | PrefetchRelated names_arg
  | Fields columns_arg
  | ExcludeFields columns_arg
  | OrderBy names_arg
  | Limit int "bool option"
  | Offset int "bool option"

fun apply_call :: "call \<Rightarrow> queryset \<Rightarrow> store \<Rightarrow> store \<times> queryset" where
  "apply_call (Filter kw) self s = filter_qs False kw self s"
| "apply_call (Exclude kw) self s = exclude kw self s"
| "apply_call (SelectRelated r) self s = select_related r self s"
| "apply_call (PrefetchRelated r) self s = prefetch_related r self s"
| "apply_call (Fields c) self s = fields_qs c self s"
| "apply_call (ExcludeFields c) self s = exclude_fields c self s"
| "apply_call (OrderBy c) self s = order_by c self s"
| "apply_call (Limit n raw) self s = limit n raw self s"
| "apply_call (Offset n raw) self s = offset n raw self s"

fun apply_calls :: "call list \<Rightarrow> queryset \<Rightarrow> store \<Rightarrow> store \<times> queryset" where
  "apply_calls [] self s = (s, self)"
| "apply_calls (c # cs) self s = (let (s', child) = apply_call c self s in apply_calls cs child s')"

text \<open>
  What can be observed of a descriptor in a store: the contents of its containers and
  its scalar attributes.
\<close>

definition observe ::
  "store \<Rightarrow> queryset \<Rightarrow>
   clause list \<times> clause list \<times> string list \<times> string list \<times> dict \<times> dict \<times> string list \<times>
   int option \<times> int option \<times> bool" where
  "observe s q =
     (clause_lists s (filter_clauses q), clause_lists s (exclude_clauses q),
      str_lists s (sel_related q), str_lists s (pre_related q), dicts s (columns q),
      dicts s (exclude_columns q), str_lists s (order_bys q), limit_count q, query_offset q,
      limit_sql_raw q)"

text \<open>Every container of the descriptor is an object of the store.\<close>

definition allocated :: "store \<Rightarrow> queryset \<Rightarrow> bool" where
  "allocated s q \<longleftrightarrow>
     filter_clauses q < next_ref s \<and> exclude_clauses q < next_ref s \<and> sel_related q < next_ref s \<and>
     pre_related q < next_ref s \<and> columns q < next_ref s \<and> exclude_columns q < next_ref s \<and>
     order_bys q < next_ref s"



section \<open>Compiling a descriptor\<close>

text \<open>The arguments with which \<^verbatim>\<open>build_select_expression\<close> constructs the \<^verbatim>\<open>Query\<close>.\<close>

record query =
  q_model_cls :: model
  q_select_related :: "string list"
  q_filter_clauses :: "clause list"
  q_exclude_clauses :: "clause list"
  q_offset :: "int option"
  q_limit_count :: "int option"
  q_fields :: dict
  q_exclude_fields :: dict
  q_order_bys :: "string list"
  q_limit_raw_sql :: bool

text \<open>Conditions of a WHERE part, over compiled clauses.\<close>

datatype bexp = Atom clause | And "bexp list" | Not bexp

text \<open>
  The expressions handed to the database: a select compiled from a \<^verbatim>\<open>Query\<close>,
  \<^verbatim>\<open>table.update().values(..)\<close>, \<^verbatim>\<open>table.delete()\<close>, \<^verbatim>\<open>table.insert().values(..)\<close>,
  each with the conditions added by \<^verbatim>\<open>where\<close>, and the textual update of
  \<^verbatim>\<open>bulk_update\<close>: the bind parameter compared with the primary key column and the
  columns set, each from its bind parameter.
\<close>

datatype statement =
    Select query "bexp list"
  | Update kwargs "bexp list"
  | Delete "bexp list"
  | Insert kwargs
  | UpdateByKey string "(string \<times> string) list"

fun where_of :: "statement \<Rightarrow> bexp list" where
  "where_of (Select q ws) = ws"
| "where_of (Update vs ws) = ws"
| "where_of (Delete ws) = ws"
| "where_of (Insert vs) = []"
| "where_of (UpdateByKey k cs) = []"

fun add_where :: "bexp \<Rightarrow> statement \<Rightarrow> statement" where
  "add_where b (Select q ws) = Select q (ws @ [b])"
| "add_where b (Update vs ws) = Update vs (ws @ [b])"
| "add_where b (Delete ws) = Delete (ws @ [b])"
| "add_where b (Insert vs) = Insert vs"
| "add_where b (UpdateByKey k cs) = UpdateByKey k cs"

text \<open>
  When a row satisfies a condition, given when it satisfies a compiled clause (the
  meaning of a clause belongs to the clause compiler and the database). A statement
  selects the rows that satisfy each of its conditions.
\<close>

fun sat :: "(clause \<Rightarrow> row \<Rightarrow> bool) \<Rightarrow> bexp \<Rightarrow> row \<Rightarrow> bool" where
  "sat holds (Atom c) r = holds c r"
| "sat holds (And bs) r = list_all (\<lambda>b. sat holds b r) bs"
| "sat holds (Not b) r = (\<not> sat holds b r)"

definition selects :: "(clause \<Rightarrow> row \<Rightarrow> bool) \<Rightarrow> statement \<Rightarrow> row \<Rightarrow> bool" where
  "selects holds stmt r = list_all (\<lambda>b. sat holds b r) (where_of stmt)"

text \<open>
  Modelled from the spec: \<^verbatim>\<open>FilterQuery.apply\<close> (package \<^verbatim>\<open>ormar.queryset\<close>) is missing
  from the sources. The spec compiles the filter clauses to their conjunction and the
  exclude clauses to the negation of their conjunction, and lets an update or delete
  with no filter and the override reach all rows: an empty clause list adds no
  condition.
\<close>

definition FilterQuery_apply :: "clause list \<Rightarrow> bool \<Rightarrow> statement \<Rightarrow> statement" where
  "FilterQuery_apply clauses exclude_flag expr =
     (if clauses = [] then expr
      else add_where (if exclude_flag then Not (And (map Atom clauses)) else And (map Atom clauses)) expr)"

text \<open>
  Modelled from the spec: \<^verbatim>\<open>Query.build_select_expression\<close> (module
  \<^verbatim>\<open>ormar.queryset.query\<close>) is missing from the sources. Of the compiled select the
  model keeps the \<^verbatim>\<open>Query\<close> it was built from (joins, columns, ordering and limits
  are read off it by the database) and the WHERE part the spec gives: the filter clauses
  ANDed, and NOT of the AND of the exclude clauses.
\<close>

definition Query_build_select_expression :: "query \<Rightarrow> statement" where
  "Query_build_select_expression qry =
     FilterQuery_apply (q_exclude_clauses qry) True
       (FilterQuery_apply (q_filter_clauses qry) False (Select qry []))"

text \<open>Python's \<^verbatim>\<open>a or b\<close> on an optional integer and on an optional list.\<close>

definition or_int :: "int option \<Rightarrow> int option \<Rightarrow> int option" where
  "or_int a b = (case a of None \<Rightarrow> b | Some n \<Rightarrow> if n \<noteq> 0 then Some n else b)"

definition or_list :: "'a list option \<Rightarrow> 'a list \<Rightarrow> 'a list" where
  "or_list a b = (case a of None \<Rightarrow> b | Some xs \<Rightarrow> if xs \<noteq> [] then xs else b)"

text \<open>\<^verbatim>\<open>QuerySet.build_select_expression(limit, offset, order_bys)\<close>\<close>

definition build_select_expression ::
  "int option \<Rightarrow> int option \<Rightarrow> string list option \<Rightarrow> queryset \<Rightarrow> store \<Rightarrow> statement" where
  "build_select_expression lim off obs self s =
     Query_build_select_expression
       \<lparr>q_model_cls = model_cls self,
        q_select_related = str_lists s (sel_related self),
        q_filter_clauses = clause_lists s (filter_clauses self),
        q_exclude_clauses = clause_lists s (exclude_clauses self),
        q_offset = or_int off (query_offset self),
        q_limit_count = or_int lim (limit_count self),
        q_fields = dicts s (columns self),
        q_exclude_fields = dicts s (exclude_columns self),
        q_order_bys = or_list obs (str_lists s (order_bys self)),
        q_limit_raw_sql = limit_sql_raw self\<rparr>"

section \<open>The database and the terminal operations\<close>

text \<open>The arguments with which \<^verbatim>\<open>_prefetch_related_models\<close> constructs the \<^verbatim>\<open>PrefetchQuery\<close>.\<close>

record prefetch_query =
  p_model_cls :: model
  p_fields :: dict
  p_exclude_fields :: dict
  p_prefetch_related :: "string list"
  p_select_related :: "string list"
  p_orders_by :: "string list"

text \<open>
  What a terminal operation does to the outside, in order: the round trips to the
  database and the signals sent. The database is an external collaborator: what a round
  trip returns is a function of the events so far and of the request.
\<close>

datatype event =
    FetchAll statement
  | Execute statement
  | ExecuteMany statement "kwargs list"
  | Prefetch prefetch_query
  | Load model_instance
  | PreSave model_instance
  | PostSave model_instance

record database =
  fetch_all_rows :: "event list \<Rightarrow> statement \<Rightarrow> row list"
  execute_value :: "event list \<Rightarrow> statement \<Rightarrow> val"
  prefetch_result :: "event list \<Rightarrow> prefetch_query \<Rightarrow> model_instance option list \<Rightarrow> row list \<Rightarrow> model_instance option list"
  load_result :: "event list \<Rightarrow> model_instance \<Rightarrow> model_instance"

text \<open>
  Modelled from the spec: \<^verbatim>\<open>PrefetchQuery.prefetch_related\<close> (module
  \<^verbatim>\<open>ormar.queryset.prefetch_query\<close>) is missing from the sources. The spec has it issue
  the additional queries of the second pass and attach their results to the instances
  already built. The pass is one event; the sequence it returns comes from the database.
\<close>

definition prefetch_related_models ::
  "database \<Rightarrow> queryset \<Rightarrow> store \<Rightarrow> model_instance option list \<Rightarrow> row list \<Rightarrow> event list \<Rightarrow>
   model_instance option list \<times> event list" where
  "prefetch_related_models db self s models rows tr =
     (let pq = \<lparr>p_model_cls = model_cls self, p_fields = dicts s (columns self),
                p_exclude_fields = dicts s (exclude_columns self),
                p_prefetch_related = str_lists s (pre_related self),
                p_select_related = str_lists s (sel_related self),
                p_orders_by = str_lists s (order_bys self)\<rparr>
      in (prefetch_result db tr pq models rows, tr @ [Prefetch pq]))"

text \<open>\<^verbatim>\<open>_process_query_result_rows\<close>\<close>

definition process_query_result_rows :: "queryset \<Rightarrow> store \<Rightarrow> row list \<Rightarrow> model_instance option list" where
  "process_query_result_rows self s rows =
     (let result_rows = map (from_row (model_cls self) (str_lists s (sel_related self))
                               (dicts s (columns self)) (dicts s (exclude_columns self))) rows
      in if result_rows \<noteq> [] then merge_instances_list (model_cls self) result_rows else result_rows)"

text \<open>\<^verbatim>\<open>check_single_result_rows_count\<close>\<close>

definition check_single_result_rows_count :: "model_instance option list \<Rightarrow> error + unit" where
  "check_single_result_rows_count rows =
     (if rows = [] \<or> hd rows = None then Inl NoMatch
      else if length rows > 1 then Inl MultipleMatches
      else Inr ())"

text \<open>
  The four lines \<^verbatim>\<open>first\<close> and \<^verbatim>\<open>get\<close> share after they have built the expression:
  fetch the rows, build and merge the instances, run the prefetch pass when prefetch
  paths and instances are there, check the count and return \<^verbatim>\<open>processed_rows[0]\<close>.
  \<open>reconciled\<close> is the sequence that the check sees.
\<close>

definition reconciled ::
  "database \<Rightarrow> statement \<Rightarrow> queryset \<Rightarrow> store \<Rightarrow> event list \<Rightarrow> model_instance option list \<times> event list" where
  "reconciled db expr self s tr =
     (let rows = fetch_all_rows db tr expr;
          tr1 = tr @ [FetchAll expr];
          processed_rows = process_query_result_rows self s rows
      in if str_lists s (pre_related self) \<noteq> [] \<and> processed_rows \<noteq> []
         then prefetch_related_models db self s processed_rows rows tr1
         else (processed_rows, tr1))"

definition single_result ::
  "database \<Rightarrow> statement \<Rightarrow> queryset \<Rightarrow> store \<Rightarrow> event list \<Rightarrow> (error + model_instance option) \<times> event list" where
  "single_result db expr self s tr =
     (let (processed_rows, tr1) = reconciled db expr self s tr
      in case check_single_result_rows_count processed_rows of
           Inl e \<Rightarrow> (Inl e, tr1)
         | Inr _ \<Rightarrow> (case processed_rows of [] \<Rightarrow> (Inl IndexError, tr1) | r # _ \<Rightarrow> (Inr r, tr1)))"

text \<open>The expression \<^verbatim>\<open>first\<close> builds, and the one \<^verbatim>\<open>get\<close> builds.\<close>

definition first_expression :: "queryset \<Rightarrow> store \<Rightarrow> statement" where
  "first_expression self s =
     build_select_expression (Some 1) None
       (Some (pkname (model_cls self) # str_lists s (order_bys self))) self s"

definition get_expression :: "queryset \<Rightarrow> store \<Rightarrow> statement" where
  "get_expression self s =
     (if clause_lists s (filter_clauses self) = []
      then build_select_expression (Some 1) None
             (Some ((''-'' @ pkname (model_cls self)) # str_lists s (order_bys self))) self s
      else build_select_expression None None None self s)"

text \<open>
  \<^verbatim>\<open>first\<close> and \<^verbatim>\<open>get\<close>: with keyword arguments, the same operation without them
  on \<^verbatim>\<open>self.filter(**kwargs)\<close>.
\<close>

fun first :: "database \<Rightarrow> kwargs \<Rightarrow> queryset \<Rightarrow> store \<Rightarrow> event list \<Rightarrow> (error + model_instance option) \<times> event list" where
  "first db [] self s tr = single_result db (first_expression self s) self s tr"
| "first db (k # kw) self s tr =
     (let (s', child) = filter_qs False (k # kw) self s in first db [] child s' tr)"

fun get :: "database \<Rightarrow> kwargs \<Rightarrow> queryset \<Rightarrow> store \<Rightarrow> event list \<Rightarrow> (error + model_instance option) \<times> event list" where
  "get db [] self s tr = single_result db (get_expression self s) self s tr"
| "get db (k # kw) self s tr =
     (let (s', child) = filter_qs False (k # kw) self s in get db [] child s' tr)"

text \<open>Python's truth value of a returned key, and the setter of the property \<^verbatim>\<open>pk\<close>.\<close>

fun truthy :: "val \<Rightarrow> bool" where
  "truthy NoneV = False"
| "truthy (IntV n) = (n \<noteq> 0)"
| "truthy (StrV x) = (x \<noteq> [])"
| "truthy (BoolV b) = b"

definition set_pk :: "model \<Rightarrow> val \<Rightarrow> model_instance \<Rightarrow> model_instance" where
  "set_pk m v i = i\<lparr>inst_fields := AList.update (pkname m) v (inst_fields i)\<rparr>"

text \<open>\<^verbatim>\<open>create\<close>\<close>

definition create :: "database \<Rightarrow> kwargs \<Rightarrow> queryset \<Rightarrow> event list \<Rightarrow> (error + model_instance) \<times> event list" where
  "create db kw self tr =
     (let m = model_cls self;
          new_kwargs = prepare_model_to_save m kw;
          expr = Insert new_kwargs
      in case new_instance m kw of
           Inl e \<Rightarrow> (Inl e, tr)
         | Inr inst \<Rightarrow>
            (let tr1 = tr @ [PreSave inst];
                 pk = execute_value db tr1 expr;
                 tr2 = tr1 @ [Execute expr];
                 pk_name = get_column_alias m (pkname m)
             in case (if pk_name \<notin> set (map fst kw) \<and> pk_name \<in> set (map fst new_kwargs)
                      then (case map_of new_kwargs (pkname m) of
                              None \<Rightarrow> Inl (KeyError (pkname m))
                            | Some v \<Rightarrow> Inr (set_pk m v inst))
                      else Inr inst) of
                  Inl e \<Rightarrow> (Inl e, tr2)
                | Inr inst1 \<Rightarrow>
                   (let inst2 = (if truthy pk \<and> is_pk_type m pk then set_pk m pk inst1 else inst1);
                        (inst3, tr3) =
                           (if list_ex (\<lambda>f. f \<notin> set (map fst kw)) (server_default_fields m)
                            then (load_result db tr2 inst2, tr2 @ [Load inst2])
                            else (inst2, tr2));
                        inst4 = inst3\<lparr>saved := True\<rparr>
                    in (Inr inst4, tr3 @ [PostSave inst4]))))"

text \<open>\<^verbatim>\<open>get_or_create\<close>: \<^verbatim>\<open>try: get(**kwargs)  except NoMatch: create(**kwargs)\<close>\<close>

definition get_or_create ::
  "database \<Rightarrow> kwargs \<Rightarrow> queryset \<Rightarrow> store \<Rightarrow> event list \<Rightarrow> (error + model_instance option) \<times> event list" where
  "get_or_create db kw self s tr =
     (case get db kw self s tr of
        (Inl NoMatch, tr1) \<Rightarrow>
          (case create db kw self tr1 of
             (Inl e, tr2) \<Rightarrow> (Inl e, tr2)
           | (Inr inst, tr2) \<Rightarrow> (Inr (Some inst), tr2))
      | (r, tr1) \<Rightarrow> (r, tr1))"

text \<open>\<^verbatim>\<open>update\<close>\<close>

definition update :: "database \<Rightarrow> bool \<Rightarrow> kwargs \<Rightarrow> queryset \<Rightarrow> store \<Rightarrow> event list \<Rightarrow> (error + val) \<times> event list" where
  "update db each kw self s tr =
     (let m = model_cls self;
          self_fields = set (extract_db_own_fields m) \<union> set (extract_related_names m);
          updates = [(k, v) \<leftarrow> kw. k \<in> self_fields];
          updates = translate_columns_to_aliases m updates
      in if \<not> each \<and> clause_lists s (filter_clauses self) = [] then (Inl QueryDefinitionError, tr)
         else (let expr = FilterQuery_apply (clause_lists s (filter_clauses self)) False (Update updates [])
               in (Inr (execute_value db tr expr), tr @ [Execute expr])))"

text \<open>\<^verbatim>\<open>delete\<close>: with keyword arguments, \<^verbatim>\<open>self.filter(**kwargs).delete()\<close>.\<close>

fun delete :: "database \<Rightarrow> bool \<Rightarrow> kwargs \<Rightarrow> queryset \<Rightarrow> store \<Rightarrow> event list \<Rightarrow> (error + val) \<times> event list" where
  "delete db each [] self s tr =
     (if \<not> each \<and> clause_lists s (filter_clauses self) = [] then (Inl QueryDefinitionError, tr)
      else (let expr = FilterQuery_apply (clause_lists s (filter_clauses self)) False (Delete [])
            in (Inr (execute_value db tr expr), tr @ [Execute expr])))"
| "delete db each (k # kw) self s tr =
     (let (s', child) = filter_qs False (k # kw) self s in delete db False [] child s' tr)"

text \<open>
  The loop of \<^verbatim>\<open>bulk_update\<close> over the objects: the first object without a primary
  key value raises; the others give the batch rows.
\<close>

fun ready_objects :: "model \<Rightarrow> string list \<Rightarrow> model_instance list \<Rightarrow> error + kwargs list" where
  "ready_objects m cols [] = Inr []"
| "ready_objects m cols (objt # objs) =
     (let new_kwargs = inst_fields objt
      in if pkname m \<notin> set (map fst new_kwargs) \<or> map_of new_kwargs (pkname m) = Some NoneV
         then Inl ModelPersistenceError
         else (let new_kwargs = substitute_models_with_pks m new_kwargs;
                   new_kwargs = translate_columns_to_aliases m new_kwargs;
                   new_kwargs = [(''new_'' @ k, v). (k, v) \<leftarrow> new_kwargs, k \<in> set cols]
               in case ready_objects m cols objs of
                    Inl e \<Rightarrow> Inl e
                  | Inr rest \<Rightarrow> Inr (new_kwargs # rest)))"

text \<open>
  \<^verbatim>\<open>bulk_update\<close>. The objects are returned with the save status that the last loop
  sets on them.
\<close>

definition bulk_update ::
  "database \<Rightarrow> model_instance list \<Rightarrow> string list option \<Rightarrow> queryset \<Rightarrow> event list \<Rightarrow>
   (error + model_instance list) \<times> event list" where
  "bulk_update db objs columns_opt self tr =
     (let m = model_cls self;
          pk_name = pkname m;
          cols = (case columns_opt of
                    None \<Rightarrow> remdups (extract_db_own_fields m @ extract_related_names m)
                  | Some cs \<Rightarrow> if cs = [] then remdups (extract_db_own_fields m @ extract_related_names m)
                               else cs);
          cols = (if pk_name \<notin> set cols then cols @ [pk_name] else cols);
          cols = map (get_column_alias m) cols
      in case ready_objects m cols objs of
           Inl e \<Rightarrow> (Inl e, tr)
         | Inr ready \<Rightarrow>
            (let pk_column_name = get_column_alias m pk_name;
                 expr = UpdateByKey (''new_'' @ pk_column_name)
                          [(k, ''new_'' @ k). k \<leftarrow> cols, k \<noteq> pk_column_name \<and> k \<in> set (table_columns m)]
             in (Inr (map (\<lambda>objt. objt\<lparr>saved := True\<rparr>) objs), tr @ [ExecuteMany expr ready])))"

section \<open>Specification-level notions\<close>

text \<open>
  The sort specification as the spec words it for a sequence of \<^verbatim>\<open>order_by\<close> calls:
  the paths of each call are appended to the list so far, skipping those already in it.
\<close>

fun append_unseen :: "string list \<Rightarrow> string list list \<Rightarrow> string list" where
  "append_unseen acc [] = acc"
| "append_unseen acc (c # cs) = append_unseen (acc @ [x \<leftarrow> c. x \<notin> set acc]) cs"



section \<open>A concrete model\<close>

text \<open>
  The \<^verbatim>\<open>Track\<close> model of the test suite (primary key \<^verbatim>\<open>id\<close>, fields \<^verbatim>\<open>title\<close> and
  \<^verbatim>\<open>position\<close>, foreign key \<^verbatim>\<open>album\<close>) with simple stand-ins for the helpers of the
  model class, the descriptor \<^verbatim>\<open>Track.objects\<close> that \<^verbatim>\<open>__get__\<close> builds in an
  empty store, and equality clauses read on a row.
\<close>

definition track :: model where
  "track =
     \<lparr>model_name = ''track'', pkname = ''id'', requires_ref_update = False,
      extract_db_own_fields = [''id'', ''title'', ''position''],
      extract_related_names = [''album''],
      get_column_alias = (\<lambda>k. k),
      translate_columns_to_aliases = (\<lambda>kw. kw),
      substitute_models_with_pks = (\<lambda>kw. kw),
      prepare_model_to_save = (\<lambda>kw. kw),
      table_columns = [''id'', ''album'', ''title'', ''position''],
      related_path = (\<lambda>k. if k = ''album__name'' then Some ''album'' else None),
      update_dict_from_list = (\<lambda>d ns. d @ map (\<lambda>n. (n, Ellipsis)) ns),
      update_dict = (\<lambda>d e. d @ e),
      from_row = (\<lambda>sr inc exc r. Some \<lparr>inst_fields = r, saved = True\<rparr>),
      merge_instances_list = remdups,
      new_instance = (\<lambda>kw. Inr \<lparr>inst_fields = kw, saved = False\<rparr>),
      is_pk_type = (\<lambda>v. case v of IntV n \<Rightarrow> True | _ \<Rightarrow> False),
      server_default_fields = []\<rparr>"

definition track_objects :: "store \<times> queryset" where
  "track_objects = QuerySet_init track None None None None None None None None None False empty_store"

definition equals :: "clause \<Rightarrow> row \<Rightarrow> bool" where
  "equals c r = (case c of Clause k v \<Rightarrow> map_of r k = Some v)"

text \<open>
  A database that answers every fetch with the given rows and every execute with their
  number, and leaves instances as they are.
\<close>

definition database_returning :: "row list \<Rightarrow> database" where
  "database_returning rows =
     \<lparr>fetch_all_rows = (\<lambda>tr stmt. rows),
      execute_value = (\<lambda>tr stmt. IntV (int (length rows))),
      prefetch_result = (\<lambda>tr pq models rs. models),
      load_result = (\<lambda>tr i. i)\<rparr>"

text \<open>
  The names \<^verbatim>\<open>update\<close> accepts (\<^verbatim>\<open>self_fields\<close>): the model's own database fields
  and its related-field names.
\<close>

definition known_fields :: "model \<Rightarrow> string set" where
  "known_fields m = set (extract_db_own_fields m) \<union> set (extract_related_names m)"

text \<open>
  An object without a populated primary key, as \<^verbatim>\<open>bulk_update\<close> tests it: the key is
  missing from \<^verbatim>\<open>dict()\<close> or its value is \<^verbatim>\<open>None\<close>.
\<close>

definition lacks_pk :: "model \<Rightarrow> model_instance \<Rightarrow> bool" where
  "lacks_pk m objt \<longleftrightarrow>
     pkname m \<notin> set (map fst (inst_fields objt)) \<or> map_of (inst_fields objt) (pkname m) = Some NoneV"

text \<open>
  The descriptor on which \<^verbatim>\<open>first\<close> and \<^verbatim>\<open>get\<close> run their query: \<^verbatim>\<open>self\<close>, or
  \<^verbatim>\<open>self.filter(**kwargs)\<close> when keyword arguments are given.
\<close>

definition target :: "kwargs \<Rightarrow> queryset \<Rightarrow> store \<Rightarrow> store \<times> queryset" where
  "target kw self s = (if kw = [] then (s, self) else filter_qs False kw self s)"

section \<open>The store only grows\<close>











section \<open>The constructor on given containers\<close>

lemma init_given:
  "QuerySet_init m (Some fc) (Some ec) (Some sr) lim off (Some cols) (Some excl) (Some obs) (Some pr) raw s =
     (let (cols', s5) = (if dicts s cols \<noteq> [] then (cols, s) else new_dict [] s);
          (excl', s6) = (if dicts s5 excl \<noteq> [] then (excl, s5) else new_dict [] s5);
          (obs', s7) = (if str_lists s6 obs \<noteq> [] then (obs, s6) else new_str_list [] s6)
      in (s7, \<lparr>model_cls = m, filter_clauses = fc, exclude_clauses = ec, sel_related = sr,
               pre_related = pr, limit_count = lim, query_offset = off, columns = cols',
               exclude_columns = excl', order_bys = obs', limit_sql_raw = raw\<rparr>))"
  by (simp add: QuerySet_init_def)

lemma init_given_view:
  assumes "fc < next_ref s" "ec < next_ref s" "sr < next_ref s" "pr < next_ref s"
          "cols < next_ref s" "excl < next_ref s" "obs < next_ref s"
  shows "observe (fst (QuerySet_init m (Some fc) (Some ec) (Some sr) lim off (Some cols) (Some excl) (Some obs) (Some pr) raw s))
            (snd (QuerySet_init m (Some fc) (Some ec) (Some sr) lim off (Some cols) (Some excl) (Some obs) (Some pr) raw s))
         = (clause_lists s fc, clause_lists s ec, str_lists s sr, str_lists s pr, dicts s cols, dicts s excl, str_lists s obs, lim, off, raw)"
  using assms
  by (auto simp: init_given Let_def new_dict_def new_str_list_def observe_def split: if_splits)

lemma allocated_init_given:
  assumes "fc < next_ref s" "ec < next_ref s" "sr < next_ref s" "pr < next_ref s"
          "cols < next_ref s" "excl < next_ref s" "obs < next_ref s"
  shows "allocated (fst (QuerySet_init m (Some fc) (Some ec) (Some sr) lim off (Some cols) (Some excl) (Some obs) (Some pr) raw s))
            (snd (QuerySet_init m (Some fc) (Some ec) (Some sr) lim off (Some cols) (Some excl) (Some obs) (Some pr) raw s))"
  using assms
  by (auto simp: init_given Let_def new_dict_def new_str_list_def allocated_def split: if_splits)



lemma init_given_order:
  "str_lists (fst (QuerySet_init m (Some fc) (Some ec) (Some sr) lim off (Some cols) (Some excl) (Some obs) (Some pr) raw s))
     (order_bys (snd (QuerySet_init m (Some fc) (Some ec) (Some sr) lim off (Some cols) (Some excl) (Some obs) (Some pr) raw s)))
   = str_lists s obs"
  by (auto simp: init_given Let_def new_dict_def new_str_list_def split: if_splits)

lemma observe_filter_qs:
  assumes "allocated s q"
  shows "observe (fst (filter_qs e kw q s)) (snd (filter_qs e kw q s)) =
     ((if e then clause_lists s (filter_clauses q)
       else fst (prepare_filter (model_cls q) (str_lists s (sel_related q)) (clause_lists s (filter_clauses q)) kw)),
      (if e then fst (prepare_filter (model_cls q) (str_lists s (sel_related q)) (clause_lists s (filter_clauses q)) kw)
       else clause_lists s (exclude_clauses q)),
      snd (prepare_filter (model_cls q) (str_lists s (sel_related q)) (clause_lists s (filter_clauses q)) kw),
      str_lists s (pre_related q), dicts s (columns q),
      dicts s (exclude_columns q), str_lists s (order_bys q),
      limit_count q, query_offset q, limit_sql_raw q)"
  using assms unfolding filter_qs_def Let_def split_def
  apply (subst init_given_view)
  apply (auto simp: allocated_def new_str_list_def new_clause_list_def)
  done

lemma allocated_apply_call:
  assumes "allocated s q"
  shows "allocated (fst (apply_call c q s)) (snd (apply_call c q s))"
proof (cases c)
  case (Filter kw) 
  with assms show ?thesis apply (simp add: filter_qs_def Let_def split_def)
    by (rule allocated_init_given) (auto simp: allocated_def new_str_list_def new_clause_list_def)
next
  case (Exclude kw)
  with assms show ?thesis apply (simp add: exclude_def filter_qs_def Let_def split_def)
    by (rule allocated_init_given) (auto simp: allocated_def new_str_list_def new_clause_list_def)
next
  case (SelectRelated r) 
  with assms show ?thesis apply (simp add: select_related_def Let_def split_def)
    by (rule allocated_init_given) (auto simp: allocated_def new_str_list_def)
next
  case (PrefetchRelated r)
  with assms show ?thesis apply (simp add: prefetch_related_def Let_def split_def)
    by (rule allocated_init_given) (auto simp: allocated_def new_str_list_def)
next
  case (Fields x) 
  with assms show ?thesis apply (simp add: fields_qs_def Let_def split_def)
    by (rule allocated_init_given) (auto simp: allocated_def new_dict_def)
next
  case (ExcludeFields x)
  with assms show ?thesis apply (simp add: exclude_fields_def Let_def split_def)
    by (rule allocated_init_given) (auto simp: allocated_def new_dict_def)
next
  case (OrderBy x) 
  with assms show ?thesis apply (simp add: order_by_def Let_def split_def)
    by (rule allocated_init_given) (auto simp: allocated_def new_str_list_def)
next
  case (Limit n r)
  with assms show ?thesis apply (simp add: limit_def)
    by (rule allocated_init_given) (auto simp: allocated_def)
next
  case (Offset n r)
  with assms show ?thesis apply (simp add: offset_def)
    by (rule allocated_init_given) (auto simp: allocated_def)
qed

section \<open>The concrete descriptor\<close>

lemma objects_track: "objects track empty_store = Inr track_objects"
  by (simp add: objects_def track_objects_def track_def)

lemmas store_simps = QuerySet_init_def new_clause_list_def new_str_list_def new_dict_def
  empty_store_def Let_def

lemma track_objects_allocated: "allocated (fst track_objects) (snd track_objects)"
  by (simp add: track_objects_def allocated_def store_simps)

lemma track_objects_observe:
  "observe (fst track_objects) (snd track_objects) = ([], [], [], [], [], [], [], None, None, False)"
  by (simp add: track_objects_def observe_def store_simps)

section \<open>Ordering\<close>

lemma order_list_after_order_by:
  "str_lists (fst (order_by c q s)) (order_bys (snd (order_by c q s))) =
     str_lists s (order_bys q) @ [x \<leftarrow> as_list c. x \<notin> set (str_lists s (order_bys q))]"
  unfolding order_by_def Let_def split_def
  by (simp add: init_given_order) (simp add: new_str_list_def)

lemma order_list_after_calls:
  "str_lists (fst (apply_calls (map OrderBy cs) q s)) (order_bys (snd (apply_calls (map OrderBy cs) q s))) =
     append_unseen (str_lists s (order_bys q)) (map as_list cs)"
proof (induction cs arbitrary: q s)
  case Nil
  show ?case by simp
next
  case (Cons c cs)
  show ?case
    using Cons.IH[of "snd (order_by c q s)" "fst (order_by c q s)"] order_list_after_order_by[of c q s]
    by (simp add: split_def Let_def)
qed

lemma append_unseen_set: "set (append_unseen acc cs) = set acc \<union> \<Union> (set ` set cs)"
  by (induction cs arbitrary: acc) auto

lemma append_unseen_prefix: "\<exists>rest. append_unseen acc cs = acc @ rest \<and> set rest \<inter> set acc = {}"
proof (induction cs arbitrary: acc)
  case Nil
  show ?case by simp
next
  case (Cons c cs)
  obtain rest where r: "append_unseen (acc @ [x \<leftarrow> c. x \<notin> set acc]) cs = (acc @ [x \<leftarrow> c. x \<notin> set acc]) @ rest"
      "set rest \<inter> set (acc @ [x \<leftarrow> c. x \<notin> set acc]) = {}"
    using Cons.IH by blast
  show ?case
    apply (rule exI[of _ "[x \<leftarrow> c. x \<notin> set acc] @ rest"])
    using r by auto
qed

text \<open>
  Claim C7. For every descriptor and every sequence of \<^verbatim>\<open>order_by\<close> calls the sort
  specification of the result is the list before the calls followed, call by call, by
  the paths of the call that are not in the list so far (\<open>append_unseen\<close>): the list
  before is kept as a prefix, nothing in it is added again, and the paths are those of
  the list before and of the calls. A single call appends its arguments, skipping the
  paths already in the list; it returns the same list when all its paths are already
  present, and on an empty list it gives the paths of the call.
\<close>

theorem order_by_appends_unseen_paths:
  fixes s :: store and q :: queryset and c :: names_arg and cs :: "names_arg list"
  defines "current \<equiv> str_lists s (order_bys q)"
  defines "after \<equiv> str_lists (fst (order_by c q s)) (order_bys (snd (order_by c q s)))"
  defines "chain \<equiv> apply_calls (map OrderBy cs) q s"
  shows "after = current @ [x \<leftarrow> as_list c. x \<notin> set current] \<and>
         (set (as_list c) \<subseteq> set current \<longrightarrow> after = current) \<and>
         (current = [] \<longrightarrow> after = as_list c) \<and>
         str_lists (fst chain) (order_bys (snd chain)) = append_unseen current (map as_list cs) \<and>
         (\<exists>rest. append_unseen current (map as_list cs) = current @ rest \<and> set rest \<inter> set current = {}) \<and>
         set (append_unseen current (map as_list cs)) = set current \<union> \<Union> (set ` as_list ` set cs)"
proof -
  have a: "after = current @ [x \<leftarrow> as_list c. x \<notin> set current]"
    unfolding after_def current_def by (rule order_list_after_order_by)
  have b: "set (as_list c) \<subseteq> set current \<longrightarrow> [x \<leftarrow> as_list c. x \<notin> set current] = []"
    by (auto simp: filter_empty_conv)
  have c: "str_lists (fst chain) (order_bys (snd chain)) = append_unseen current (map as_list cs)"
    unfolding chain_def current_def by (rule order_list_after_calls)
  have d: "set (append_unseen current (map as_list cs)) = set current \<union> \<Union> (set ` as_list ` set cs)"
    by (simp add: append_unseen_set image_image)
  show ?thesis using a b c d append_unseen_prefix[of current "map as_list cs"] by simp
qed

theorem order_by_appends_unseen_paths_witness:
  "str_lists (fst (order_by (NameList [''title'', ''-position'']) (snd track_objects) (fst track_objects)))
     (order_bys (snd (order_by (NameList [''title'', ''-position'']) (snd track_objects) (fst track_objects))))
   = [''title'', ''-position''] \<and>
   str_lists
     (fst (order_by (OneName ''title'')
        (snd (order_by (NameList [''title'', ''-position'']) (snd track_objects) (fst track_objects)))
        (fst (order_by (NameList [''title'', ''-position'']) (snd track_objects) (fst track_objects)))))
     (order_bys (snd (order_by (OneName ''title'')
        (snd (order_by (NameList [''title'', ''-position'']) (snd track_objects) (fst track_objects)))
        (fst (order_by (NameList [''title'', ''-position'']) (snd track_objects) (fst track_objects))))))
   = [''title'', ''-position'']"
proof -
  have e: "str_lists (fst track_objects) (order_bys (snd track_objects)) = []"
    using track_objects_observe by (simp add: observe_def)
  have first: "str_lists (fst (order_by (NameList [''title'', ''-position'']) (snd track_objects) (fst track_objects)))
     (order_bys (snd (order_by (NameList [''title'', ''-position'']) (snd track_objects) (fst track_objects))))
   = [''title'', ''-position'']"
    using order_by_appends_unseen_paths[of "NameList [''title'', ''-position'']" "snd track_objects" "fst track_objects" "[]"] e
    by simp
  show ?thesis
    using first order_by_appends_unseen_paths[of "OneName ''title''"
        "snd (order_by (NameList [''title'', ''-position'']) (snd track_objects) (fst track_objects))"
        "fst (order_by (NameList [''title'', ''-position'']) (snd track_objects) (fst track_objects))" "[]"]
    by simp
qed

section \<open>Immutability and sharing\<close>








section \<open>Exclusion\<close>

lemma sat_conjunction: "list_all (\<lambda>b. sat holds b r) (map Atom cs) = list_all (\<lambda>c. holds c r) cs"
  by (induction cs) simp_all

lemma selects_build_select_expression:
  "selects holds (build_select_expression lim off obs q s) r \<longleftrightarrow>
     list_all (\<lambda>c. holds c r) (clause_lists s (filter_clauses q)) \<and>
     (clause_lists s (exclude_clauses q) = [] \<or> \<not> list_all (\<lambda>c. holds c r) (clause_lists s (exclude_clauses q)))"
  by (auto simp: build_select_expression_def Query_build_select_expression_def selects_def
      FilterQuery_apply_def sat_conjunction)

text \<open>
  Claim C1. For every pair of keyword arguments \<open>a = x\<close> and \<open>b = y\<close>,
  \<^verbatim>\<open>exclude(a=x, b=y)\<close> is \<^verbatim>\<open>filter\<close> with the inversion flag, and the select
  compiled from the result takes a row exactly when the row satisfies the filter clauses
  of the parent and does not satisfy both conditions together: the negation of the
  conjunction, so a row that meets one condition and fails the other is kept. With no
  filter clause on the parent the WHERE part is the single condition
  NOT (a = x AND b = y).
\<close>

theorem exclude_negates_the_conjunction:
  assumes "allocated s q"
  shows "exclude [(a, x), (b, y)] q s = filter_qs True [(a, x), (b, y)] q s \<and>
         (selects holds (build_select_expression None None None
                           (snd (exclude [(a, x), (b, y)] q s)) (fst (exclude [(a, x), (b, y)] q s))) r
            \<longleftrightarrow> list_all (\<lambda>c. holds c r) (clause_lists s (filter_clauses q)) \<and>
                \<not> (holds (Clause a x) r \<and> holds (Clause b y) r)) \<and>
         (clause_lists s (filter_clauses q) = [] \<longrightarrow>
            where_of (build_select_expression None None None
                        (snd (exclude [(a, x), (b, y)] q s)) (fst (exclude [(a, x), (b, y)] q s)))
            = [Not (And [Atom (Clause a x), Atom (Clause b y)])])"
proof -
  let ?s' = "fst (exclude [(a, x), (b, y)] q s)" and ?q' = "snd (exclude [(a, x), (b, y)] q s)"
  have o: "clause_lists ?s' (filter_clauses ?q') = clause_lists s (filter_clauses q)"
     "clause_lists ?s' (exclude_clauses ?q') = clause_lists s (filter_clauses q) @ [Clause a x, Clause b y]"
    using observe_filter_qs[OF assms, of True "[(a, x), (b, y)]"]
    by (simp_all add: observe_def exclude_def prepare_filter_def)
  have 1: "selects holds (build_select_expression None None None ?q' ?s') r
            \<longleftrightarrow> list_all (\<lambda>c. holds c r) (clause_lists s (filter_clauses q)) \<and>
                \<not> (holds (Clause a x) r \<and> holds (Clause b y) r)"
    unfolding selects_build_select_expression o by auto
  have 2: "clause_lists s (filter_clauses q) = [] \<longrightarrow>
            where_of (build_select_expression None None None ?q' ?s')
            = [Not (And [Atom (Clause a x), Atom (Clause b y)])]"
    by (simp add: build_select_expression_def Query_build_select_expression_def FilterQuery_apply_def o)
  show ?thesis using 1 2 by (simp add: exclude_def)
qed

theorem exclude_negates_the_conjunction_witness:
  "selects equals
     (build_select_expression None None None
        (snd (exclude [(''title'', StrV ''The Bird''), (''position'', IntV 1)] (snd track_objects) (fst track_objects)))
        (fst (exclude [(''title'', StrV ''The Bird''), (''position'', IntV 1)] (snd track_objects) (fst track_objects))))
     [(''id'', IntV 7), (''title'', StrV ''The Bird''), (''position'', IntV 2)] \<and>
   \<not> selects equals
     (build_select_expression None None None
        (snd (exclude [(''title'', StrV ''The Bird''), (''position'', IntV 1)] (snd track_objects) (fst track_objects)))
        (fst (exclude [(''title'', StrV ''The Bird''), (''position'', IntV 1)] (snd track_objects) (fst track_objects))))
     [(''id'', IntV 1), (''title'', StrV ''The Bird''), (''position'', IntV 1)]"
proof -
  have e: "clause_lists (fst track_objects) (filter_clauses (snd track_objects)) = []"
    using track_objects_observe by (simp add: observe_def)
  have kept: "selects equals
     (build_select_expression None None None
        (snd (exclude [(''title'', StrV ''The Bird''), (''position'', IntV 1)] (snd track_objects) (fst track_objects)))
        (fst (exclude [(''title'', StrV ''The Bird''), (''position'', IntV 1)] (snd track_objects) (fst track_objects))))
     [(''id'', IntV 7), (''title'', StrV ''The Bird''), (''position'', IntV 2)]"
    using exclude_negates_the_conjunction[OF track_objects_allocated,
           where a = "''title''" and x = "StrV ''The Bird''" and b = "''position''" and y = "IntV 1"
             and holds = equals and r = "[(''id'', IntV 7), (''title'', StrV ''The Bird''), (''position'', IntV 2)]",
           THEN conjunct2, THEN conjunct1]
    by (simp add: e equals_def)
  have dropped: "\<not> selects equals
     (build_select_expression None None None
        (snd (exclude [(''title'', StrV ''The Bird''), (''position'', IntV 1)] (snd track_objects) (fst track_objects)))
        (fst (exclude [(''title'', StrV ''The Bird''), (''position'', IntV 1)] (snd track_objects) (fst track_objects))))
     [(''id'', IntV 1), (''title'', StrV ''The Bird''), (''position'', IntV 1)]"
    using exclude_negates_the_conjunction[OF track_objects_allocated,
           where a = "''title''" and x = "StrV ''The Bird''" and b = "''position''" and y = "IntV 1"
             and holds = equals and r = "[(''id'', IntV 1), (''title'', StrV ''The Bird''), (''position'', IntV 1)]",
           THEN conjunct2, THEN conjunct1]
    by (simp add: e equals_def)
  show ?thesis using kept dropped by (rule conjI)
qed

section \<open>Update and delete\<close>

lemma track_objects_unfiltered: "clause_lists (fst track_objects) (filter_clauses (snd track_objects)) = []"
  using track_objects_observe by (simp add: observe_def)

lemma delete_with_criteria:
  assumes "allocated s q" "kw \<noteq> []"
  shows "delete db each kw q s tr =
           (Inr (execute_value db tr (Delete [And (map Atom (clause_lists s (filter_clauses q) @ map (\<lambda>(k, v). Clause k v) kw))])),
            tr @ [Execute (Delete [And (map Atom (clause_lists s (filter_clauses q) @ map (\<lambda>(k, v). Clause k v) kw))])])"
proof -
  obtain k kw' where kw: "kw = k # kw'" using assms(2) by (cases kw) auto
  have o: "clause_lists (fst (filter_qs False kw q s)) (filter_clauses (snd (filter_qs False kw q s)))
            = clause_lists s (filter_clauses q) @ map (\<lambda>(k, v). Clause k v) kw"
    using observe_filter_qs[OF assms(1), of False kw] by (simp add: observe_def prepare_filter_def)
  have ne: "clause_lists s (filter_clauses q) @ map (\<lambda>(k, v). Clause k v) kw \<noteq> []"
    using assms(2) by simp
  show ?thesis
    using o ne unfolding kw
    by (simp add: split_def Let_def FilterQuery_apply_def del: append_is_Nil_conv)
qed

text \<open>
  Claim C5, as stated, fails for \<^verbatim>\<open>delete\<close> called with keyword criteria: on the
  unfiltered \<^verbatim>\<open>Track.objects\<close>, \<^verbatim>\<open>delete(title='The Bird')\<close> without the override
  flag raises nothing and executes a delete restricted by the criterion.
\<close>

theorem delete_with_criteria_counterexample:
  "clause_lists (fst track_objects) (filter_clauses (snd track_objects)) = [] \<and>
   delete (database_returning []) False [(''title'', StrV ''The Bird'')] (snd track_objects) (fst track_objects) []
     = (Inr (IntV 0), [Execute (Delete [And [Atom (Clause ''title'' (StrV ''The Bird''))]])])"
  using delete_with_criteria[OF track_objects_allocated, of "[(''title'', StrV ''The Bird'')]" "database_returning []" False "[]"]
  by (simp add: track_objects_unfiltered database_returning_def)

text \<open>
  Claim C5, amended. For every queryset with an empty filter-clause list: \<^verbatim>\<open>update\<close>
  without the override flag (whatever its keyword values) and \<^verbatim>\<open>delete\<close> without the
  override flag and without keyword criteria raise the definition error and leave the
  trace of round trips as it was; \<^verbatim>\<open>update(each=True)\<close> and \<^verbatim>\<open>delete(each=True)\<close>
  without criteria issue one statement that carries no condition, so that it selects
  every row; \<^verbatim>\<open>delete\<close> with keyword criteria executes a delete restricted to the
  conjunction of the criteria.
\<close>

theorem unfiltered_update_and_delete:
  assumes "clause_lists s (filter_clauses q) = []"
  shows "update db False kw q s tr = (Inl QueryDefinitionError, tr) \<and>
         delete db False [] q s tr = (Inl QueryDefinitionError, tr) \<and>
         update db True kw q s tr =
           (Inr (execute_value db tr
                   (Update (translate_columns_to_aliases (model_cls q) [(k, v) \<leftarrow> kw. k \<in> known_fields (model_cls q)]) [])),
            tr @ [Execute (Update (translate_columns_to_aliases (model_cls q) [(k, v) \<leftarrow> kw. k \<in> known_fields (model_cls q)]) [])]) \<and>
         delete db True [] q s tr = (Inr (execute_value db tr (Delete [])), tr @ [Execute (Delete [])]) \<and>
         selects holds (Update vs []) r \<and> selects holds (Delete []) r \<and>
         (allocated s q \<and> kw \<noteq> [] \<longrightarrow>
            delete db each kw q s tr =
              (Inr (execute_value db tr (Delete [And (map Atom (map (\<lambda>(k, v). Clause k v) kw))])),
               tr @ [Execute (Delete [And (map Atom (map (\<lambda>(k, v). Clause k v) kw))])]))"
proof -
  have u: "update db False kw q s tr = (Inl QueryDefinitionError, tr)"
    using assms by (simp add: update_def Let_def)
  have d: "delete db False [] q s tr = (Inl QueryDefinitionError, tr)"
    using assms by simp
  have ue: "update db True kw q s tr =
           (Inr (execute_value db tr
                   (Update (translate_columns_to_aliases (model_cls q) [(k, v) \<leftarrow> kw. k \<in> known_fields (model_cls q)]) [])),
            tr @ [Execute (Update (translate_columns_to_aliases (model_cls q) [(k, v) \<leftarrow> kw. k \<in> known_fields (model_cls q)]) [])])"
    using assms by (simp add: update_def Let_def FilterQuery_apply_def known_fields_def)
  have de: "delete db True [] q s tr = (Inr (execute_value db tr (Delete [])), tr @ [Execute (Delete [])])"
    using assms by (simp add: FilterQuery_apply_def Let_def)
  have all: "selects holds (Update vs []) r \<and> selects holds (Delete []) r"
    by (simp add: selects_def)
  have dk: "allocated s q \<and> kw \<noteq> [] \<longrightarrow>
            delete db each kw q s tr =
              (Inr (execute_value db tr (Delete [And (map Atom (map (\<lambda>(k, v). Clause k v) kw))])),
               tr @ [Execute (Delete [And (map Atom (map (\<lambda>(k, v). Clause k v) kw))])])"
    using delete_with_criteria[of s q kw db each tr] assms by simp
  show ?thesis using u d ue de all dk by blast
qed

theorem unfiltered_update_and_delete_witness:
  "update (database_returning []) False [(''title'', StrV ''x'')] (snd track_objects) (fst track_objects) []
     = (Inl QueryDefinitionError, []) \<and>
   delete (database_returning []) True [] (snd track_objects) (fst track_objects) []
     = (Inr (IntV 0), [Execute (Delete [])]) \<and>
   delete (database_returning []) False [(''position'', IntV 3)] (snd track_objects) (fst track_objects) []
     = (Inr (IntV 0), [Execute (Delete [And [Atom (Clause ''position'' (IntV 3))]])])"
  using unfiltered_update_and_delete[OF track_objects_unfiltered,
          where db = "database_returning []" and kw = "[(''title'', StrV ''x'')]" and tr = "[]"]
        unfiltered_update_and_delete[OF track_objects_unfiltered,
          where db = "database_returning []" and kw = "[(''position'', IntV 3)]" and tr = "[]" and each = False]
        track_objects_allocated
  by (simp add: database_returning_def)

lemma filter_known_idem:
  "[(k, v) \<leftarrow> [(k, v) \<leftarrow> kw. k \<in> A]. k \<in> A] = [(k, v) \<leftarrow> kw. k \<in> A]"
  by (induction kw) auto

text \<open>
  Claim C10. For every call to \<^verbatim>\<open>update\<close>, the call behaves exactly as the call with
  only the keyword arguments whose names are own database fields or related-field names:
  a keyword argument with any other name changes neither the result nor the statement,
  and when a statement is issued (override flag or filter present) its values are the
  translated known keywords only.
\<close>

theorem update_drops_unknown_keywords:
  "update db each kw q s tr = update db each [(k, v) \<leftarrow> kw. k \<in> known_fields (model_cls q)] q s tr \<and>
   (k' \<notin> known_fields (model_cls q) \<longrightarrow> update db each (kw @ [(k', v')]) q s tr = update db each kw q s tr) \<and>
   (each \<or> clause_lists s (filter_clauses q) \<noteq> [] \<longrightarrow>
      update db each kw q s tr =
        (Inr (execute_value db tr
               (FilterQuery_apply (clause_lists s (filter_clauses q)) False
                  (Update (translate_columns_to_aliases (model_cls q)
                             [(k, v) \<leftarrow> kw. k \<in> known_fields (model_cls q)]) []))),
         tr @ [Execute (FilterQuery_apply (clause_lists s (filter_clauses q)) False
                  (Update (translate_columns_to_aliases (model_cls q)
                             [(k, v) \<leftarrow> kw. k \<in> known_fields (model_cls q)]) []))]))"
proof -
  have a: "update db each kw q s tr = update db each [(k, v) \<leftarrow> kw. k \<in> known_fields (model_cls q)] q s tr"
    by (simp add: update_def Let_def known_fields_def filter_known_idem[of "set (extract_db_own_fields (model_cls q)) \<union> set (extract_related_names (model_cls q))"])
  have b: "k' \<notin> known_fields (model_cls q) \<longrightarrow> update db each (kw @ [(k', v')]) q s tr = update db each kw q s tr"
    by (simp add: update_def Let_def known_fields_def)
  have c: "each \<or> clause_lists s (filter_clauses q) \<noteq> [] \<longrightarrow>
      update db each kw q s tr =
        (Inr (execute_value db tr
               (FilterQuery_apply (clause_lists s (filter_clauses q)) False
                  (Update (translate_columns_to_aliases (model_cls q)
                             [(k, v) \<leftarrow> kw. k \<in> known_fields (model_cls q)]) []))),
         tr @ [Execute (FilterQuery_apply (clause_lists s (filter_clauses q)) False
                  (Update (translate_columns_to_aliases (model_cls q)
                             [(k, v) \<leftarrow> kw. k \<in> known_fields (model_cls q)]) []))])"
    by (auto simp add: update_def Let_def known_fields_def)
  show ?thesis using a b c by blast
qed

theorem update_drops_unknown_keywords_witness:
  "update (database_returning []) True [(''title'', StrV ''x''), (''colour'', StrV ''red'')]
     (snd track_objects) (fst track_objects) []
   = (Inr (IntV 0), [Execute (Update [(''title'', StrV ''x'')] [])])"
  using update_drops_unknown_keywords[where db = "database_returning []" and each = True
          and kw = "[(''title'', StrV ''x''), (''colour'', StrV ''red'')]"
          and q = "snd track_objects" and s = "fst track_objects" and tr = "[]", THEN conjunct2, THEN conjunct2]
  by (simp add: database_returning_def known_fields_def track_objects_unfiltered FilterQuery_apply_def
        track_objects_def track_def store_simps)

section \<open>Bulk update\<close>

lemma ready_objects_lacking:
  "list_ex (lacks_pk m) objs \<Longrightarrow> ready_objects m cols objs = Inl ModelPersistenceError"
  by (induction objs) (auto simp: lacks_pk_def Let_def split: sum.splits)

lemma ready_objects_complete:
  "\<not> list_ex (lacks_pk m) objs \<Longrightarrow> \<exists>ready. ready_objects m cols objs = Inr ready \<and> length ready = length objs"
  by (induction objs) (auto simp: lacks_pk_def Let_def split: sum.splits)

text \<open>
  Claim C6. For every list of instances passed to \<^verbatim>\<open>bulk_update\<close>: if any instance
  lacks a populated primary key, the call raises the persistence error and the trace of
  round trips is unchanged, so nothing is written for any instance of the list; if none
  does, the call issues the one batched statement with a row per instance.
\<close>

theorem bulk_update_without_pk_writes_nothing:
  "(list_ex (lacks_pk (model_cls q)) objs \<longrightarrow>
      bulk_update db objs cols q tr = (Inl ModelPersistenceError, tr)) \<and>
   (\<not> list_ex (lacks_pk (model_cls q)) objs \<longrightarrow>
      (\<exists>expr ready. length ready = length objs \<and>
         bulk_update db objs cols q tr =
           (Inr (map (\<lambda>objt. objt\<lparr>saved := True\<rparr>) objs), tr @ [ExecuteMany expr ready])))"
proof (cases "list_ex (lacks_pk (model_cls q)) objs")
  case True
  then show ?thesis
    by (simp add: bulk_update_def Let_def ready_objects_lacking)
next
  case False
  let ?cols0 = "case cols of None \<Rightarrow> remdups (extract_db_own_fields (model_cls q) @ extract_related_names (model_cls q))
                  | Some cs \<Rightarrow> if cs = [] then remdups (extract_db_own_fields (model_cls q) @ extract_related_names (model_cls q)) else cs"
  let ?cols = "map (get_column_alias (model_cls q)) (if pkname (model_cls q) \<notin> set ?cols0 then ?cols0 @ [pkname (model_cls q)] else ?cols0)"
  obtain ready where r: "ready_objects (model_cls q) ?cols objs = Inr ready" "length ready = length objs"
    using ready_objects_complete[OF False] by blast
  show ?thesis
    using False r by (auto simp add: bulk_update_def Let_def)
qed

theorem bulk_update_without_pk_writes_nothing_witness:
  "bulk_update (database_returning [])
     [\<lparr>inst_fields = [(''id'', IntV 1), (''title'', StrV ''The Bird'')], saved = True\<rparr>,
      \<lparr>inst_fields = [(''id'', NoneV), (''title'', StrV ''The Waters'')], saved = False\<rparr>]
     None (snd track_objects) [] = (Inl ModelPersistenceError, [])"
  using bulk_update_without_pk_writes_nothing[where q = "snd track_objects" and db = "database_returning []"
          and objs = "[\<lparr>inst_fields = [(''id'', IntV 1), (''title'', StrV ''The Bird'')], saved = True\<rparr>,
                       \<lparr>inst_fields = [(''id'', NoneV), (''title'', StrV ''The Waters'')], saved = False\<rparr>]"
          and cols = None and tr = "[]", THEN conjunct1]
  by (simp add: lacks_pk_def track_objects_def track_def store_simps)

section \<open>Single results\<close>

lemma get_on_target: "get db kw q s tr = get db [] (snd (target kw q s)) (fst (target kw q s)) tr"
  by (cases kw) (simp_all add: target_def split_def Let_def)

lemma first_on_target: "first db kw q s tr = first db [] (snd (target kw q s)) (fst (target kw q s)) tr"
  by (cases kw) (simp_all add: target_def split_def Let_def)

lemma single_result_none:
  "\<forall>r\<in>set (fst (reconciled db expr q s tr)). r = None \<Longrightarrow>
   fst (single_result db expr q s tr) = Inl NoMatch"
  by (cases "fst (reconciled db expr q s tr)")
     (simp_all add: single_result_def check_single_result_rows_count_def split_def Let_def)

lemma single_result_many:
  "fst (reconciled db expr q s tr) = map Some insts \<Longrightarrow> 1 < length insts \<Longrightarrow>
   fst (single_result db expr q s tr) = Inl MultipleMatches"
  by (cases insts) (simp_all add: single_result_def check_single_result_rows_count_def split_def Let_def)

lemma single_result_one:
  "fst (reconciled db expr q s tr) = [Some i] \<Longrightarrow> fst (single_result db expr q s tr) = Inr (Some i)"
  by (simp add: single_result_def check_single_result_rows_count_def split_def Let_def)

text \<open>
  Claim C4. For every queryset and keyword criteria, with the reconciled sequence that
  the query of \<^verbatim>\<open>get\<close> (of \<^verbatim>\<open>first\<close>) yields on the descriptor it runs on: when the
  sequence holds no instance the operation fails with \<open>NoMatch\<close>; when it holds more than one
  instance the operation fails with \<open>MultipleMatches\<close>; when it holds exactly one
  instance the operation returns it; and the two failures are different errors.
\<close>

theorem single_result_failure_kinds:
  fixes db :: database and kw :: kwargs and q :: queryset and s :: store and tr :: "event list"
  defines "s' \<equiv> fst (target kw q s)" and "q' \<equiv> snd (target kw q s)"
  defines "got \<equiv> fst (reconciled db (get_expression q' s') q' s' tr)"
  defines "firsts \<equiv> fst (reconciled db (first_expression q' s') q' s' tr)"
  shows "((\<forall>r\<in>set got. r = None) \<longrightarrow> fst (get db kw q s tr) = Inl NoMatch) \<and>
         (got = map Some insts \<and> 1 < length insts \<longrightarrow> fst (get db kw q s tr) = Inl MultipleMatches) \<and>
         (got = [Some i] \<longrightarrow> fst (get db kw q s tr) = Inr (Some i)) \<and>
         ((\<forall>r\<in>set firsts. r = None) \<longrightarrow> fst (first db kw q s tr) = Inl NoMatch) \<and>
         (firsts = map Some insts \<and> 1 < length insts \<longrightarrow> fst (first db kw q s tr) = Inl MultipleMatches) \<and>
         (firsts = [Some i] \<longrightarrow> fst (first db kw q s tr) = Inr (Some i)) \<and>
         NoMatch \<noteq> MultipleMatches"
proof -
  have g: "get db kw q s tr = single_result db (get_expression q' s') q' s' tr"
    unfolding s'_def q'_def by (subst get_on_target) simp
  have f: "first db kw q s tr = single_result db (first_expression q' s') q' s' tr"
    unfolding s'_def q'_def by (subst first_on_target) simp
  show ?thesis
    unfolding g f got_def firsts_def
    using single_result_none single_result_many single_result_one by simp
qed

lemmas track_simps = track_objects_def track_def store_simps database_returning_def target_def
  filter_qs_def prepare_filter_def select_related_def reconciled_def process_query_result_rows_def
  get_expression_def first_expression_def build_select_expression_def

theorem single_result_failure_kinds_witness:
  "fst (get (database_returning []) [(''title'', StrV ''Test2'')] (snd track_objects) (fst track_objects) [])
     = Inl NoMatch \<and>
   fst (get (database_returning
               [[(''id'', IntV 1), (''album'', IntV 1), (''title'', StrV ''Test1'')],
                [(''id'', IntV 2), (''album'', IntV 1), (''title'', StrV ''Test2'')],
                [(''id'', IntV 3), (''album'', IntV 1), (''title'', StrV ''Test3'')]])
          [(''album'', IntV 1)]
          (snd (select_related (OneName ''album'') (snd track_objects) (fst track_objects)))
          (fst (select_related (OneName ''album'') (snd track_objects) (fst track_objects))) [])
     = Inl MultipleMatches"
proof -
  have a: "fst (get (database_returning []) [(''title'', StrV ''Test2'')] (snd track_objects) (fst track_objects) [])
     = Inl NoMatch"
    using single_result_failure_kinds[where db = "database_returning []" and kw = "[(''title'', StrV ''Test2'')]"
         and q = "snd track_objects" and s = "fst track_objects" and tr = "[]", THEN conjunct1]
    by (simp add: track_simps)
  have b: "fst (get (database_returning
               [[(''id'', IntV 1), (''album'', IntV 1), (''title'', StrV ''Test1'')],
                [(''id'', IntV 2), (''album'', IntV 1), (''title'', StrV ''Test2'')],
                [(''id'', IntV 3), (''album'', IntV 1), (''title'', StrV ''Test3'')]])
          [(''album'', IntV 1)]
          (snd (select_related (OneName ''album'') (snd track_objects) (fst track_objects)))
          (fst (select_related (OneName ''album'') (snd track_objects) (fst track_objects))) [])
     = Inl MultipleMatches"
    using single_result_failure_kinds[where db = "database_returning
               [[(''id'', IntV 1), (''album'', IntV 1), (''title'', StrV ''Test1'')],
                [(''id'', IntV 2), (''album'', IntV 1), (''title'', StrV ''Test2'')],
                [(''id'', IntV 3), (''album'', IntV 1), (''title'', StrV ''Test3'')]]"
         and kw = "[(''album'', IntV 1)]"
         and q = "snd (select_related (OneName ''album'') (snd track_objects) (fst track_objects))"
         and s = "fst (select_related (OneName ''album'') (snd track_objects) (fst track_objects))" and tr = "[]"
         and insts = "[\<lparr>inst_fields = [(''id'', IntV 1), (''album'', IntV 1), (''title'', StrV ''Test1'')], saved = True\<rparr>,
                       \<lparr>inst_fields = [(''id'', IntV 2), (''album'', IntV 1), (''title'', StrV ''Test2'')], saved = True\<rparr>,
                       \<lparr>inst_fields = [(''id'', IntV 3), (''album'', IntV 1), (''title'', StrV ''Test3'')], saved = True\<rparr>]",
         THEN conjunct2, THEN conjunct1]
    by (simp add: track_simps)
  show ?thesis using a b by (rule conjI)
qed

lemma reconciled_trace:
  "snd (reconciled db expr q s tr) = tr @ [FetchAll expr] \<or>
   (\<exists>pq. snd (reconciled db expr q s tr) = tr @ [FetchAll expr, Prefetch pq])"
  by (simp add: reconciled_def prefetch_related_models_def Let_def)

lemma single_result_trace: "snd (single_result db expr q s tr) = snd (reconciled db expr q s tr)"
  by (simp add: single_result_def split_def Let_def split: sum.splits list.splits)




section \<open>Get or create\<close>

lemma create_trace:
  "new_instance (model_cls q) kw = Inr inst \<Longrightarrow>
   \<exists>rest. snd (create db kw q tr) =
            tr @ PreSave inst # Execute (Insert (prepare_model_to_save (model_cls q) kw)) # rest"
  by (auto simp: create_def Let_def split: sum.splits option.splits if_splits)

lemma create_saved: "create db kw q tr = (Inr inst, tr') \<Longrightarrow> saved inst"
  by (auto simp: create_def Let_def split: sum.splits option.splits if_splits)

lemma get_reads_only:
  "\<exists>evs. snd (get db kw q s tr) = tr @ evs \<and> (\<forall>x. Execute x \<notin> set evs)"
proof -
  have "\<exists>evs. snd (get db [] (snd (target kw q s)) (fst (target kw q s)) tr) = tr @ evs \<and> (\<forall>x. Execute x \<notin> set evs)"
    using reconciled_trace[of db "get_expression (snd (target kw q s)) (fst (target kw q s))" "snd (target kw q s)" "fst (target kw q s)" tr]
    by (auto simp: single_result_trace)
  then show ?thesis by (subst get_on_target)
qed

text \<open>
  Claim C8. For every set of keyword arguments, \<^verbatim>\<open>get_or_create\<close> first runs \<^verbatim>\<open>get\<close>
  with them. When \<^verbatim>\<open>get\<close> does not fail with \<open>NoMatch\<close>, its outcome (the existing
  instance, or any other failure such as \<open>MultipleMatches\<close>) is the outcome of
  \<^verbatim>\<open>get_or_create\<close> and nothing is executed on the database. When \<^verbatim>\<open>get\<close> fails with
  \<open>NoMatch\<close>, the outcome is that of \<^verbatim>\<open>create\<close> with the same arguments, run after
  the round trips of \<^verbatim>\<open>get\<close>: the insert is executed, and an instance that comes back is
  the new one, flagged as saved.
\<close>

theorem get_or_create_creates_on_no_match_only:
  "(fst (get db kw q s tr) \<noteq> Inl NoMatch \<longrightarrow>
      get_or_create db kw q s tr = get db kw q s tr \<and>
      (\<exists>evs. snd (get_or_create db kw q s tr) = tr @ evs \<and> (\<forall>x. Execute x \<notin> set evs))) \<and>
   (fst (get db kw q s tr) = Inl NoMatch \<longrightarrow>
      get_or_create db kw q s tr =
        (map_sum id Some (fst (create db kw q (snd (get db kw q s tr)))),
         snd (create db kw q (snd (get db kw q s tr))))) \<and>
   (fst (get db kw q s tr) = Inl NoMatch \<and> new_instance (model_cls q) kw = Inr inst \<longrightarrow>
      (\<exists>rest. snd (get_or_create db kw q s tr) =
                snd (get db kw q s tr) @ PreSave inst #
                  Execute (Insert (prepare_model_to_save (model_cls q) kw)) # rest)) \<and>
   (get_or_create db kw q s tr = (Inr (Some i), tr') \<and> fst (get db kw q s tr) = Inl NoMatch \<longrightarrow> saved i)"
proof -
  obtain r tr1 where g: "get db kw q s tr = (r, tr1)" by (cases "get db kw q s tr")
  have a: "r \<noteq> Inl NoMatch \<Longrightarrow> get_or_create db kw q s tr = (r, tr1)"
    using g by (auto simp: get_or_create_def split: sum.splits error.splits)
  have b: "r = Inl NoMatch \<Longrightarrow> get_or_create db kw q s tr =
        (map_sum id Some (fst (create db kw q tr1)), snd (create db kw q tr1))"
    using g by (auto simp: get_or_create_def split: sum.splits error.splits prod.splits)
  have c: "r = Inl NoMatch \<Longrightarrow> new_instance (model_cls q) kw = Inr inst \<Longrightarrow>
      \<exists>rest. snd (get_or_create db kw q s tr) =
                tr1 @ PreSave inst # Execute (Insert (prepare_model_to_save (model_cls q) kw)) # rest"
    using b create_trace[of q kw inst db tr1] by simp
  have d: "get_or_create db kw q s tr = (Inr (Some i), tr') \<Longrightarrow> r = Inl NoMatch \<Longrightarrow> saved i"
    using b create_saved[of db kw q tr1 i tr'] by (cases "create db kw q tr1") (auto simp: map_sum_def split: sum.splits)
  show ?thesis
    using a b c d get_reads_only[of db kw q s tr] unfolding g by auto
qed

theorem get_or_create_creates_on_no_match_only_witness:
  "fst (get_or_create (database_returning []) [(''title'', StrV ''Satellite Mind'')]
          (snd track_objects) (fst track_objects) [])
   = Inr (Some \<lparr>inst_fields = [(''title'', StrV ''Satellite Mind'')], saved = True\<rparr>)"
proof -
  have n: "fst (get (database_returning []) [(''title'', StrV ''Satellite Mind'')]
                 (snd track_objects) (fst track_objects) []) = Inl NoMatch"
    by (simp add: track_simps single_result_def check_single_result_rows_count_def)
  show ?thesis
    using get_or_create_creates_on_no_match_only[where db = "database_returning []"
            and kw = "[(''title'', StrV ''Satellite Mind'')]" and q = "snd track_objects"
            and s = "fst track_objects" and tr = "[]", THEN conjunct2, THEN conjunct1] n
    by (simp add: create_def track_simps)
qed

end
